theory Spec2Isabelle
  imports Complex_Main "HOL-Library.Multiset"
begin

section \<open>GreenCart Logistics: the simulation engine\<close>

text \<open>
  A shallow embedding of \<^verbatim>\<open>backend/utils/simulationEngine.js\<close> and of the model methods it
  calls (\<^verbatim>\<open>Route.getExpectedTime\<close>, \<^verbatim>\<open>Order.getDeliveryTimeInMinutes\<close>,
  \<^verbatim>\<open>Driver.isFatigued\<close>).

  Numbers. A JavaScript \<^verbatim>\<open>Number\<close> is modelled as an exact rational (\<^typ>\<open>rat\<close>); the
  constants \<^verbatim>\<open>0.1\<close>, \<^verbatim>\<open>0.3\<close>, \<^verbatim>\<open>1.2\<close>, \<^verbatim>\<open>1.5\<close> are the fractions they denote. Values
  that the code produces with \<^verbatim>\<open>Math.ceil\<close> or \<^verbatim>\<open>Math.round\<close> are integers
  (\<^typ>\<open>int\<close>), counters are \<^typ>\<open>nat\<close>. The binary rounding of IEEE doubles is not
  modelled.
\<close>

subsection \<open>Data model\<close>

datatype trafficLevel = Low | Medium | High

text \<open>The \<^verbatim>\<open>Route\<close> schema.\<close>

record route =
  routeId :: int
  distanceKm :: rat
  trafficLevel :: trafficLevel
  baseTimeMin :: rat

datatype orderStatus = Pending | Assigned | InTransit | Delivered | Failed

text \<open>The \<^verbatim>\<open>Order\<close> schema (the fields the engine reads).\<close>

record order =
  orderId :: int
  valueRs :: rat
  orderRouteId :: int
  deliveryTime :: string
  status :: orderStatus

text \<open>
  An entry of \<^verbatim>\<open>assignment.assignedOrders\<close>:
  \<^verbatim>\<open>{...order.toObject(), estimatedTime: orderTime, isLate: ...}\<close>.
\<close>

record assignedOrder = order +
  estimatedTime :: int
  isLate :: bool

text \<open>The \<^verbatim>\<open>Driver\<close> schema; \<^verbatim>\<open>_id\<close> is the document's identifier.\<close>

record driver =
  driver_id :: nat
  name :: string
  shiftHours :: rat
  pastWeekHours :: "rat list"
  isAvailable :: bool
  currentDayHours :: rat
  fatigueLevel :: rat

text \<open>The per-driver accumulator the planner builds (\<^verbatim>\<open>drivers.map(driver => ({...}))\<close>).\<close>

record assignment =
  driverId :: nat
  driverName :: string
  assignedOrders :: "assignedOrder list"
  totalHours :: rat
  isFatigued :: bool

type_synonym routeMap = "int \<rightharpoonup> route"

subsection \<open>Model methods\<close>

text \<open>
  \<^verbatim>\<open>driverSchema.methods.isFatigued\<close>: the last entry of \<^verbatim>\<open>pastWeekHours\<close> exceeds 8. On an
  empty array the entry is \<^verbatim>\<open>undefined\<close> and the comparison is false.
\<close>

definition driver_isFatigued :: "driver \<Rightarrow> bool" where
  "driver_isFatigued d =
     (case pastWeekHours d of [] \<Rightarrow> False | _ # _ \<Rightarrow> last (pastWeekHours d) > 8)"

text \<open>The object literal \<^verbatim>\<open>trafficMultiplier\<close> of \<^verbatim>\<open>getExpectedTime\<close>.\<close>

fun trafficMultiplier :: "trafficLevel \<Rightarrow> rat" where
  "trafficMultiplier Low = 1"
| "trafficMultiplier Medium = 12 / 10"
| "trafficMultiplier High = 15 / 10"

text \<open>\<^verbatim>\<open>routeSchema.methods.getExpectedTime\<close>.\<close>

definition getExpectedTime :: "route \<Rightarrow> int" where
  "getExpectedTime r = \<lceil>baseTimeMin r * trafficMultiplier (trafficLevel r)\<rceil>"

text \<open>
  \<^verbatim>\<open>Number(s)\<close> on the strings that \<^verbatim>\<open>split(':')\<close> yields from a time string. The empty
  string is 0 and a string of decimal digits is its value; every other string is taken
  to \<^verbatim>\<open>NaN\<close>, written \<open>None\<close> (signs, blanks, exponents and hexadecimal spellings lie
  outside the format \<^verbatim>\<open>/^([0-1]?[0-9]|2[0-3]):[0-5][0-9]$/\<close> the schema validates).
\<close>

definition isDigit :: "char \<Rightarrow> bool" where
  "isDigit c = (48 \<le> (of_char c :: nat) \<and> (of_char c :: nat) \<le> 57)"

definition js_Number :: "string \<Rightarrow> int option" where
  "js_Number s =
     (if list_all isDigit s
      then Some (foldl (\<lambda>n c. 10 * n + (int (of_char c) - 48)) 0 s)
      else None)"

text \<open>\<^verbatim>\<open>s.split(':')\<close>: the pieces between the colons (always at least one piece).\<close>

fun split_colon :: "string \<Rightarrow> string list" where
  "split_colon [] = [[]]"
| "split_colon (c # cs) =
     (if c = CHR '':'' then [] # split_colon cs
      else (case split_colon cs of
              [] \<Rightarrow> [[c]]
            | p # ps \<Rightarrow> (c # p) # ps))"

text \<open>
  \<^verbatim>\<open>timeToMinutes\<close> of the engine and \<^verbatim>\<open>getDeliveryTimeInMinutes\<close> of the order share one
  body: \<^verbatim>\<open>const [hours, minutes] = timeStr.split(':').map(Number); return hours * 60 + minutes\<close>.
  A missing piece is \<^verbatim>\<open>undefined\<close>, and the sum is then \<^verbatim>\<open>NaN\<close> (\<open>None\<close>).
\<close>

definition timeToMinutes :: "string \<Rightarrow> int option" where
  "timeToMinutes timeStr =
     (case map js_Number (split_colon timeStr) of
        Some hours # Some minutes # _ \<Rightarrow> Some (hours * 60 + minutes)
      | _ \<Rightarrow> None)"

definition getDeliveryTimeInMinutes :: "'a order_scheme \<Rightarrow> int option" where
  "getDeliveryTimeInMinutes ord = timeToMinutes (deliveryTime ord)"

subsection \<open>Timing, lateness, score and fuel cost\<close>

text \<open>\<^verbatim>\<open>calculateOrderTime(route, isFatigued)\<close>, with \<^verbatim>\<open>FATIGUE_SPEED_REDUCTION = 0.3\<close>.\<close>

definition FATIGUE_SPEED_REDUCTION :: rat where
  "FATIGUE_SPEED_REDUCTION = 3 / 10"

definition calculateOrderTime :: "route \<Rightarrow> bool \<Rightarrow> int" where
  "calculateOrderTime r fatigued =
     (let baseTime = of_int (getExpectedTime r);
          baseTime' = (if fatigued then baseTime * (1 + FATIGUE_SPEED_REDUCTION) else baseTime)
      in \<lceil>baseTime'\<rceil>)"

text \<open>\<^verbatim>\<open>isOrderLate(order, route, isFatigued)\<close>; the order is not read.\<close>

definition isOrderLate :: "'a order_scheme \<Rightarrow> route \<Rightarrow> bool \<Rightarrow> bool" where
  "isOrderLate ord r fatigued =
     (let expectedTime = calculateOrderTime r fatigued;
          allowedTime = baseTimeMin r + 10
      in of_int expectedTime > allowedTime)"

text \<open>\<^verbatim>\<open>calculateAssignmentScore(assignment, order, route)\<close>.\<close>

definition calculateAssignmentScore :: "assignment \<Rightarrow> 'a order_scheme \<Rightarrow> route \<Rightarrow> rat" where
  "calculateAssignmentScore a ord r =
     (let score = 100;
          score = (if isFatigued a then score - 30 else score);
          score = score - totalHours a * 2;
          score = (if valueRs ord > 1000 then score + 20 else score);
          score = (if trafficLevel r = High then score - 10
                   else if trafficLevel r = Medium then score - 5
                   else score)
      in score)"

text \<open>
  \<^verbatim>\<open>calculateFuelCost(route)\<close>, with \<^verbatim>\<open>BASE_FUEL_COST = 5\<close> and
  \<^verbatim>\<open>HIGH_TRAFFIC_SURCHARGE = 2\<close>.
\<close>

definition BASE_FUEL_COST :: rat where
  "BASE_FUEL_COST = 5"

definition HIGH_TRAFFIC_SURCHARGE :: rat where
  "HIGH_TRAFFIC_SURCHARGE = 2"

definition calculateFuelCost :: "route \<Rightarrow> rat" where
  "calculateFuelCost r =
     (let cost = distanceKm r * BASE_FUEL_COST
      in if trafficLevel r = High then cost + distanceKm r * HIGH_TRAFFIC_SURCHARGE else cost)"

subsection \<open>The planner: \<^verbatim>\<open>optimizeOrderAssignment\<close>\<close>

text \<open>
  The comparator passed to \<^verbatim>\<open>orders.sort\<close>: descending value, then ascending delivery
  minutes. A \<^verbatim>\<open>NaN\<close> difference counts as 0, as \<^verbatim>\<open>Array.prototype.sort\<close> takes it.
\<close>

definition compareOrders :: "order \<Rightarrow> order \<Rightarrow> rat" where
  "compareOrders a b =
     (if valueRs a \<noteq> valueRs b then valueRs b - valueRs a
      else (case (getDeliveryTimeInMinutes a, getDeliveryTimeInMinutes b) of
              (Some ma, Some mb) \<Rightarrow> of_int (ma - mb)
            | _ \<Rightarrow> 0))"

text \<open>
  \<^verbatim>\<open>Array.prototype.sort\<close> is stable: an element moves in front of another only when
  the comparator is positive for the pair in their current order. It is modelled as a
  stable insertion sort.
\<close>

fun insertOrder :: "order \<Rightarrow> order list \<Rightarrow> order list" where
  "insertOrder x [] = [x]"
| "insertOrder x (y # ys) =
     (if compareOrders x y \<le> 0 then x # y # ys else y # insertOrder x ys)"

definition sortOrders :: "order list \<Rightarrow> order list" where
  "sortOrders os = foldr insertOrder os []"

text \<open>The initial accumulators, one per driver.\<close>

definition initAssignment :: "driver \<Rightarrow> assignment" where
  "initAssignment d =
     \<lparr>driverId = driver_id d, driverName = name d, assignedOrders = [],
      totalHours = 0, isFatigued = driver_isFatigued d\<rparr>"

text \<open>The capacity check of the inner loop; \<open>hasCapacity\<close> is the negation of the \<^verbatim>\<open>continue\<close> test.\<close>

definition hasCapacity :: "route \<Rightarrow> rat \<Rightarrow> assignment \<Rightarrow> bool" where
  "hasCapacity r maxHoursPerDriver a =
     (\<not> (totalHours a + of_int (calculateOrderTime r (isFatigued a)) / 60 > maxHoursPerDriver))"

text \<open>
  The inner loop \<^verbatim>\<open>for (let i = 0; i < assignments.length; i++)\<close>. It only reads the
  accumulators, so it runs over the remaining list with the index \<open>i\<close> of its head; the
  state is \<^verbatim>\<open>(bestDriverIndex, bestScore)\<close>.
\<close>

fun scanDrivers ::
  "route \<Rightarrow> order \<Rightarrow> rat \<Rightarrow> assignment list \<Rightarrow> nat \<Rightarrow> int \<times> rat \<Rightarrow> int \<times> rat" where
  "scanDrivers r ord maxH [] i best = best"
| "scanDrivers r ord maxH (a # as) i (bestDriverIndex, bestScore) =
     (if \<not> hasCapacity r maxH a then scanDrivers r ord maxH as (Suc i) (bestDriverIndex, bestScore)
      else (let score = calculateAssignmentScore a ord r
            in if score > bestScore then scanDrivers r ord maxH as (Suc i) (int i, score)
               else scanDrivers r ord maxH as (Suc i) (bestDriverIndex, bestScore)))"

text \<open>The commit: the annotated order is pushed and the hours are increased.\<close>

definition commitOrder :: "assignment \<Rightarrow> order \<Rightarrow> route \<Rightarrow> assignment" where
  "commitOrder a ord r =
     (let orderTime = calculateOrderTime r (isFatigued a)
      in a\<lparr>assignedOrders := assignedOrders a @
              [\<lparr>orderId = orderId ord, valueRs = valueRs ord, orderRouteId = orderRouteId ord,
                deliveryTime = deliveryTime ord, status = status ord,
                estimatedTime = orderTime, isLate = isOrderLate ord r (isFatigued a)\<rparr>],
           totalHours := totalHours a + of_int orderTime / 60\<rparr>)"

text \<open>One round of the outer loop \<^verbatim>\<open>for (const order of sortedOrders)\<close>.\<close>

definition assignOrder :: "routeMap \<Rightarrow> rat \<Rightarrow> assignment list \<Rightarrow> order \<Rightarrow> assignment list" where
  "assignOrder rm maxH assignments ord =
     (case rm (orderRouteId ord) of
        None \<Rightarrow> assignments
      | Some r \<Rightarrow>
          (let bestDriverIndex = fst (scanDrivers r ord maxH assignments 0 (- 1, - 1))
           in if bestDriverIndex \<noteq> - 1
              then assignments[nat bestDriverIndex :=
                     commitOrder (assignments ! nat bestDriverIndex) ord r]
              else assignments))"

text \<open>
  The three object arguments of the planner are passed by reference. \<open>plannerArgs\<close> holds
  them; the planner returns, beside its result, the three objects as the call leaves
  them. \<^verbatim>\<open>orders.sort(...)\<close> sorts the caller's array in place; the drivers and the route
  map are only read (\<^verbatim>\<open>drivers.map\<close>, \<^verbatim>\<open>driver.isFatigued()\<close>, \<^verbatim>\<open>routeMap.get\<close>).
\<close>

record plannerArgs =
  drivers :: "driver list"
  orders :: "order list"
  routeMap :: routeMap

definition optimizeOrderAssignment ::
  "plannerArgs \<Rightarrow> string \<Rightarrow> rat \<Rightarrow> assignment list \<times> plannerArgs" where
  "optimizeOrderAssignment args startTime maxHoursPerDriver =
     (let assignments = map initAssignment (drivers args);
          sortedOrders = sortOrders (orders args);
          args' = args\<lparr>orders := sortedOrders\<rparr>;
          startTimeMinutes = timeToMinutes startTime;
          maxMinutes = maxHoursPerDriver * 60
      in (foldl (assignOrder (routeMap args') maxHoursPerDriver) assignments sortedOrders, args'))"

subsection \<open>The aggregator: \<^verbatim>\<open>calculateKPIs\<close>\<close>

text \<open>\<^verbatim>\<open>Math.round\<close>: the nearest integer, a half going up.\<close>

definition Math_round :: "rat \<Rightarrow> int" where
  "Math_round x = \<lfloor>x + 1 / 2\<rfloor>"

definition LATE_DELIVERY_PENALTY :: rat where
  "LATE_DELIVERY_PENALTY = 50"

definition HIGH_VALUE_BONUS_RATE :: rat where
  "HIGH_VALUE_BONUS_RATE = 1 / 10"

text \<open>The running totals of \<^verbatim>\<open>calculateKPIs\<close>.\<close>

record kpiAcc =
  acc_totalProfit :: rat
  acc_totalFuelCost :: rat
  acc_onTimeDeliveries :: nat
  acc_lateDeliveries :: nat
  acc_totalDeliveries :: nat
  acc_lowTraffic :: rat
  acc_mediumTraffic :: rat
  acc_highTraffic :: rat

definition kpiAcc0 :: kpiAcc where
  "kpiAcc0 =
     \<lparr>acc_totalProfit = 0, acc_totalFuelCost = 0, acc_onTimeDeliveries = 0,
      acc_lateDeliveries = 0, acc_totalDeliveries = 0,
      acc_lowTraffic = 0, acc_mediumTraffic = 0, acc_highTraffic = 0\<rparr>"

text \<open>
  \<^verbatim>\<open>fuelCostBreakdown[route.trafficLevel.toLowerCase() + 'Traffic'] += fuelCost\<close>.
\<close>

fun addToBucket :: "trafficLevel \<Rightarrow> rat \<Rightarrow> kpiAcc \<Rightarrow> kpiAcc" where
  "addToBucket Low c acc = acc\<lparr>acc_lowTraffic := acc_lowTraffic acc + c\<rparr>"
| "addToBucket Medium c acc = acc\<lparr>acc_mediumTraffic := acc_mediumTraffic acc + c\<rparr>"
| "addToBucket High c acc = acc\<lparr>acc_highTraffic := acc_highTraffic acc + c\<rparr>"

text \<open>The value of \<^verbatim>\<open>orderProfit\<close> just before \<^verbatim>\<open>Math.max(0, orderProfit)\<close>.\<close>

definition orderProfit :: "assignedOrder \<Rightarrow> route \<Rightarrow> rat" where
  "orderProfit ord r =
     (let p = valueRs ord;
          p = (if isLate ord then p - LATE_DELIVERY_PENALTY
               else if valueRs ord > 1000 then p + valueRs ord * HIGH_VALUE_BONUS_RATE
               else p)
      in p - calculateFuelCost r)"

text \<open>The body of the inner loop \<^verbatim>\<open>for (const order of assignment.assignedOrders)\<close>.\<close>

definition kpiOrder :: "routeMap \<Rightarrow> kpiAcc \<Rightarrow> assignedOrder \<Rightarrow> kpiAcc" where
  "kpiOrder rm acc ord =
     (case rm (orderRouteId ord) of
        None \<Rightarrow> acc
      | Some r \<Rightarrow>
          (let acc = acc\<lparr>acc_totalDeliveries := acc_totalDeliveries acc + 1\<rparr>;
               acc = (if isLate ord
                      then acc\<lparr>acc_lateDeliveries := acc_lateDeliveries acc + 1\<rparr>
                      else acc\<lparr>acc_onTimeDeliveries := acc_onTimeDeliveries acc + 1\<rparr>);
               fuelCost = calculateFuelCost r;
               acc = acc\<lparr>acc_totalFuelCost := acc_totalFuelCost acc + fuelCost\<rparr>;
               acc = addToBucket (trafficLevel r) fuelCost acc
           in acc\<lparr>acc_totalProfit := acc_totalProfit acc + max 0 (orderProfit ord r)\<rparr>))"

definition kpiLoop :: "routeMap \<Rightarrow> kpiAcc \<Rightarrow> assignment list \<Rightarrow> kpiAcc" where
  "kpiLoop rm acc assignments =
     foldl (\<lambda>acc a. foldl (kpiOrder rm) acc (assignedOrders a)) acc assignments"

text \<open>The object \<^verbatim>\<open>calculateKPIs\<close> returns.\<close>

record fuelCostBreakdown =
  lowTraffic :: int
  mediumTraffic :: int
  highTraffic :: int

record kpis =
  totalProfit :: int
  efficiencyScore :: rat
  onTimeDeliveries :: nat
  lateDeliveries :: nat
  totalDeliveries :: nat
  totalFuelCost :: int
  fuelCostBreakdown :: fuelCostBreakdown

definition efficiencyOf :: "kpiAcc \<Rightarrow> rat" where
  "efficiencyOf acc =
     (if acc_totalDeliveries acc > 0
      then (of_nat (acc_onTimeDeliveries acc) / of_nat (acc_totalDeliveries acc)) * 100
      else 0)"

definition calculateKPIs :: "assignment list \<Rightarrow> routeMap \<Rightarrow> kpis" where
  "calculateKPIs assignments rm =
     (let acc = kpiLoop rm kpiAcc0 assignments;
          efficiency = efficiencyOf acc
      in \<lparr>totalProfit = Math_round (acc_totalProfit acc),
          efficiencyScore = of_int (Math_round (efficiency * 100)) / 100,
          onTimeDeliveries = acc_onTimeDeliveries acc,
          lateDeliveries = acc_lateDeliveries acc,
          totalDeliveries = acc_totalDeliveries acc,
          totalFuelCost = Math_round (acc_totalFuelCost acc),
          fuelCostBreakdown =
            \<lparr>lowTraffic = Math_round (acc_lowTraffic acc),
             mediumTraffic = Math_round (acc_mediumTraffic acc),
             highTraffic = Math_round (acc_highTraffic acc)\<rparr>\<rparr>)"

subsection \<open>The entry point: \<^verbatim>\<open>runSimulation\<close>\<close>

text \<open>
  The collections the engine queries. The queries themselves are answered by the
  database; their model below follows the query text:
  \<^verbatim>\<open>Driver.find({ isAvailable: true }).limit(numberOfDrivers).sort({ fatigueLevel: 1, currentDayHours: 1 })\<close>
  filters, sorts ascending by the two keys and then cuts the list (the sort of a query
  applies before its limit, and a limit of 0 is no limit). Among drivers with equal keys
  the stored order is kept.
\<close>

record store =
  store_drivers :: "driver list"
  store_orders :: "order list"
  store_routes :: "route list"

definition driverKeyLE :: "driver \<Rightarrow> driver \<Rightarrow> bool" where
  "driverKeyLE a b =
     (if fatigueLevel a = fatigueLevel b then currentDayHours a \<le> currentDayHours b
      else fatigueLevel a < fatigueLevel b)"

fun insertDriver :: "driver \<Rightarrow> driver list \<Rightarrow> driver list" where
  "insertDriver x [] = [x]"
| "insertDriver x (y # ys) =
     (if driverKeyLE x y then x # y # ys else y # insertDriver x ys)"

definition findAvailableDrivers :: "driver list \<Rightarrow> nat \<Rightarrow> driver list" where
  "findAvailableDrivers ds limit =
     (let found = foldr insertDriver (filter isAvailable ds) []
      in if limit = 0 then found else take limit found)"

text \<open>\<^verbatim>\<open>routes.forEach(route => routeMap.set(route.routeId, route))\<close>.\<close>

definition buildRouteMap :: "route list \<Rightarrow> routeMap" where
  "buildRouteMap routes = foldl (\<lambda>m r. m(routeId r \<mapsto> r)) Map.empty routes"

record simulationInputs =
  numberOfDrivers :: nat
  startTime :: string
  maxHoursPerDriver :: rat

text \<open>
  The \<^verbatim>\<open>Error\<close> thrown when too few drivers come back; its message holds
  \<^verbatim>\<open>drivers.length\<close> and \<^verbatim>\<open>numberOfDrivers\<close>, in this order.
\<close>

datatype error = InsufficientDrivers nat nat

record simulationOutput =
  assignments :: "assignment list"
  results :: kpis

definition runSimulation :: "store \<Rightarrow> simulationInputs \<Rightarrow> error + simulationOutput" where
  "runSimulation db inputs =
     (let found = findAvailableDrivers (store_drivers db) (numberOfDrivers inputs)
      in if length found < numberOfDrivers inputs
         then Inl (InsufficientDrivers (length found) (numberOfDrivers inputs))
         else (let pending = filter (\<lambda>ord. status ord = Pending) (store_orders db);
                   rm = buildRouteMap (store_routes db);
                   planned = fst (optimizeOrderAssignment
                               \<lparr>drivers = found, orders = pending, routeMap = rm\<rparr>
                               (startTime inputs) (maxHoursPerDriver inputs))
               in Inr \<lparr>assignments = planned, results = calculateKPIs planned rm\<rparr>))"

subsection \<open>The specification's formulas\<close>

text \<open>
  The definitions of this subsection are written from the specification's sentences,
  to be compared with the code's.
\<close>

text \<open>
  \<open>executionTime(route, fatigued) = ceil(route.baseTimeMin \<times> trafficMultiplier(route.trafficLevel)
  \<times> (1.3 if fatigued else 1.0))\<close>.
\<close>

definition executionTime_spec :: "route \<Rightarrow> bool \<Rightarrow> int" where
  "executionTime_spec r fatigued =
     \<lceil>baseTimeMin r * trafficMultiplier (trafficLevel r) * (if fatigued then 13 / 10 else 1)\<rceil>"




text \<open>The committed orders of a plan, and those of them whose route is in the lookup.\<close>

definition routePresent :: "routeMap \<Rightarrow> 'a order_scheme \<Rightarrow> bool" where
  "routePresent rm ord = (rm (orderRouteId ord) \<noteq> None)"

definition committedOrders :: "assignment list \<Rightarrow> assignedOrder list" where
  "committedOrders plan = concat (map assignedOrders plan)"


definition committedCount :: "assignment list \<Rightarrow> nat" where
  "committedCount plan = sum_list (map (\<lambda>a. length (assignedOrders a)) plan)"

text \<open>
  The accumulators the outer loop of the planner holds when it reaches the \<open>k\<close>-th
  sorted order.
\<close>

definition plannerStateAt :: "plannerArgs \<Rightarrow> rat \<Rightarrow> nat \<Rightarrow> assignment list" where
  "plannerStateAt args maxH k =
     foldl (assignOrder (routeMap args) maxH) (map initAssignment (drivers args))
       (take k (sortOrders (orders args)))"

subsection \<open>Sample data\<close>

definition ex_routeLow :: route where
  "ex_routeLow = \<lparr>routeId = 1, distanceKm = 10, trafficLevel = Low, baseTimeMin = 30\<rparr>"

definition ex_routeMedium :: route where
  "ex_routeMedium = \<lparr>routeId = 2, distanceKm = 15, trafficLevel = Medium, baseTimeMin = 60\<rparr>"

definition ex_routeShort :: route where
  "ex_routeShort = \<lparr>routeId = 3, distanceKm = 1, trafficLevel = Medium, baseTimeMin = 1\<rparr>"

definition ex_routeMap :: routeMap where
  "ex_routeMap = buildRouteMap [ex_routeLow, ex_routeMedium, ex_routeShort]"

definition ex_orderHigh :: order where
  "ex_orderHigh =
     \<lparr>orderId = 1, valueRs = 1500, orderRouteId = 1, deliveryTime = ''10:00'', status = Pending\<rparr>"

definition ex_orderLow :: order where
  "ex_orderLow =
     \<lparr>orderId = 2, valueRs = 500, orderRouteId = 2, deliveryTime = ''09:30'', status = Pending\<rparr>"

definition ex_driver :: driver where
  "ex_driver =
     \<lparr>driver_id = 1, name = ''Amit'', shiftHours = 8, pastWeekHours = [8, 8, 8, 8, 8, 8, 8],
      isAvailable = True, currentDayHours = 0, fatigueLevel = 0\<rparr>"

definition ex_driverTired :: driver where
  "ex_driverTired =
     \<lparr>driver_id = 2, name = ''Priya'', shiftHours = 8, pastWeekHours = [6, 7, 8, 8, 7, 6, 9],
      isAvailable = True, currentDayHours = 0, fatigueLevel = 30\<rparr>"

definition ex_args :: plannerArgs where
  "ex_args =
     \<lparr>drivers = [ex_driver, ex_driverTired], orders = [ex_orderLow, ex_orderHigh],
      routeMap = ex_routeMap\<rparr>"


definition ex_driverAway :: driver where
  "ex_driverAway =
     \<lparr>driver_id = 3, name = ''Rohit'', shiftHours = 6, pastWeekHours = [6, 6, 6, 6, 6, 6, 6],
      isAvailable = False, currentDayHours = 0, fatigueLevel = 0\<rparr>"

definition ex_store :: store where
  "ex_store =
     \<lparr>store_drivers = [ex_driverTired, ex_driverAway, ex_driver],
      store_orders = [ex_orderLow, ex_orderHigh],
      store_routes = [ex_routeLow, ex_routeMedium, ex_routeShort]\<rparr>"

definition ex_inputs :: simulationInputs where
  "ex_inputs = \<lparr>numberOfDrivers = 2, startTime = ''09:00'', maxHoursPerDriver = 8\<rparr>"

definition ex_inputsTooMany :: simulationInputs where
  "ex_inputsTooMany = \<lparr>numberOfDrivers = 3, startTime = ''09:00'', maxHoursPerDriver = 8\<rparr>"



section \<open>Properties of the aggregator\<close>

subsection \<open>The loops as one fold\<close>

lemma kpiLoop_concat:
  "kpiLoop rm acc plan = foldl (kpiOrder rm) acc (committedOrders plan)"
  unfolding kpiLoop_def committedOrders_def by (induction plan arbitrary: acc) simp_all

lemma addToBucket_fields [simp]:
  "acc_totalProfit (addToBucket t c acc) = acc_totalProfit acc"
  "acc_totalFuelCost (addToBucket t c acc) = acc_totalFuelCost acc"
  "acc_onTimeDeliveries (addToBucket t c acc) = acc_onTimeDeliveries acc"
  "acc_lateDeliveries (addToBucket t c acc) = acc_lateDeliveries acc"
  "acc_totalDeliveries (addToBucket t c acc) = acc_totalDeliveries acc"
  by (cases t; simp)+

subsection \<open>Counters\<close>

lemma kpiOrder_counts:
  "acc_onTimeDeliveries acc + acc_lateDeliveries acc = acc_totalDeliveries acc \<Longrightarrow>
   acc_onTimeDeliveries (kpiOrder rm acc ord) + acc_lateDeliveries (kpiOrder rm acc ord)
     = acc_totalDeliveries (kpiOrder rm acc ord)"
  by (simp add: kpiOrder_def Let_def split: option.split)

lemma foldl_kpiOrder_counts:
  "acc_onTimeDeliveries acc + acc_lateDeliveries acc = acc_totalDeliveries acc \<Longrightarrow>
   acc_onTimeDeliveries (foldl (kpiOrder rm) acc xs) + acc_lateDeliveries (foldl (kpiOrder rm) acc xs)
     = acc_totalDeliveries (foldl (kpiOrder rm) acc xs)"
  by (induction xs arbitrary: acc) (simp_all add: kpiOrder_counts)

lemma kpiLoop_counts:
  "acc_onTimeDeliveries (kpiLoop rm kpiAcc0 plan) + acc_lateDeliveries (kpiLoop rm kpiAcc0 plan)
     = acc_totalDeliveries (kpiLoop rm kpiAcc0 plan)"
  unfolding kpiLoop_concat by (rule foldl_kpiOrder_counts) (simp add: kpiAcc0_def)

lemma kpiOrder_total:
  "acc_totalDeliveries (kpiOrder rm acc ord)
     = acc_totalDeliveries acc + (if routePresent rm ord then 1 else 0)"
  by (simp add: kpiOrder_def routePresent_def Let_def split: option.split)

lemma foldl_kpiOrder_total:
  "acc_totalDeliveries (foldl (kpiOrder rm) acc xs)
     = acc_totalDeliveries acc + length (filter (routePresent rm) xs)"
  by (induction xs arbitrary: acc) (simp_all add: kpiOrder_total)

lemma kpiLoop_total:
  "acc_totalDeliveries (kpiLoop rm kpiAcc0 plan)
     = length (filter (routePresent rm) (committedOrders plan))"
  by (simp add: kpiLoop_concat foldl_kpiOrder_total kpiAcc0_def)

subsection \<open>Profit\<close>




subsection \<open>Fuel cost\<close>





section \<open>The claims on timing and on the aggregator\<close>

text \<open>
  C1 (as amended). The execution time is the ceiling of the route's expected time, itself
  already a ceiling, times 1.3 for a fatigued driver:
  \<open>ceil(ceil(baseTimeMin \<times> trafficMultiplier) \<times> (1.3 if fatigued else 1.0))\<close>, with the
  multipliers 1.0, 1.2 and 1.5 for Low, Medium and High. For a driver who is not
  fatigued this is the specification's formula.
\<close>

theorem C1_calculateOrderTime:
  "calculateOrderTime r fatigued
     = \<lceil>rat_of_int \<lceil>baseTimeMin r * trafficMultiplier (trafficLevel r)\<rceil>
          * (if fatigued then 13 / 10 else 1)\<rceil>
   \<and> calculateOrderTime r False = executionTime_spec r False
   \<and> trafficMultiplier Low = 1 \<and> trafficMultiplier Medium = 12 / 10
   \<and> trafficMultiplier High = 15 / 10"
  by (simp add: calculateOrderTime_def getExpectedTime_def executionTime_spec_def
      FATIGUE_SPEED_REDUCTION_def Let_def)

text \<open>
  C1 as the specification states it fails: on a Medium route with a base time of 1 minute
  a fatigued driver needs \<open>ceil(ceil(1.2) \<times> 1.3) = 3\<close> minutes, the specification's single
  ceiling gives \<open>ceil(1.56) = 2\<close>.
\<close>

theorem C1_counterexample:
  "0 \<le> baseTimeMin ex_routeShort
   \<and> calculateOrderTime ex_routeShort True = 3
   \<and> executionTime_spec ex_routeShort True = 2"
  by code_simp




subsection \<open>Efficiency score\<close>


lemma Math_round_0 [simp]: "Math_round 0 = 0"
  unfolding Math_round_def by (rule floor_unique) simp_all






section \<open>Properties of the planner\<close>

subsection \<open>The scan for the best driver and one round of the outer loop\<close>

lemma scanDrivers_index:
  "scanDrivers r ord maxH as i (b, s) = (b', s') \<Longrightarrow>
   (b' = b \<and> s' = s) \<or>
   (\<exists>j < length as. b' = int (i + j) \<and> hasCapacity r maxH (as ! j)
      \<and> s' = calculateAssignmentScore (as ! j) ord r \<and> s < s')"
proof (induction as arbitrary: i b s)
  case Nil
  then show ?case by simp
next
  case (Cons a as)
  show ?case
  proof (cases "hasCapacity r maxH a \<and> s < calculateAssignmentScore a ord r")
    case True
    with Cons.prems
    have "scanDrivers r ord maxH as (Suc i) (int i, calculateAssignmentScore a ord r) = (b', s')"
      by (simp add: Let_def)
    from Cons.IH [OF this] True show ?thesis
      by (elim disjE exE conjE) (force, rule disjI2, rule_tac x = "Suc j" in exI, force)
  next
    case False
    with Cons.prems have "scanDrivers r ord maxH as (Suc i) (b, s) = (b', s')"
      by (auto simp: Let_def split: if_splits)
    from Cons.IH [OF this] show ?thesis
      by (elim disjE exE conjE) (simp, rule disjI2, rule_tac x = "Suc j" in exI, force)
  qed
qed


text \<open>What one round of the outer loop does: nothing, or one commit to a driver with capacity.\<close>

lemma assignOrder_cases:
  "assignOrder rm maxH as ord = as \<or>
   (\<exists>r i. rm (orderRouteId ord) = Some r \<and> i < length as \<and> hasCapacity r maxH (as ! i)
      \<and> assignOrder rm maxH as ord = as[i := commitOrder (as ! i) ord r])"
proof (cases "rm (orderRouteId ord)")
  case None
  then show ?thesis by (simp add: assignOrder_def)
next
  case (Some r)
  obtain b' s' where scan: "scanDrivers r ord maxH as 0 (- 1, - 1) = (b', s')"
    by (cases "scanDrivers r ord maxH as 0 (- 1, - 1)")
  show ?thesis
  proof (cases "b' = - 1")
    case True
    with Some scan show ?thesis by (simp add: assignOrder_def)
  next
    case False
    with scanDrivers_index [OF scan] obtain j where
      j: "j < length as" "b' = int j" "hasCapacity r maxH (as ! j)"
      by auto
    with Some scan False show ?thesis
      by (auto simp: assignOrder_def Let_def)
  qed
qed

lemma length_assignOrder [simp]: "length (assignOrder rm maxH as ord) = length as"
  using assignOrder_cases [of rm maxH as ord] by auto

lemma length_foldl_assignOrder [simp]:
  "length (foldl (assignOrder rm maxH) as os) = length as"
  by (induction os arbitrary: as) simp_all

lemma commitOrder_fields [simp]:
  "driverId (commitOrder a ord r) = driverId a"
  "driverName (commitOrder a ord r) = driverName a"
  "isFatigued (commitOrder a ord r) = isFatigued a"
  "totalHours (commitOrder a ord r) = totalHours a + of_int (calculateOrderTime r (isFatigued a)) / 60"
  "length (assignedOrders (commitOrder a ord r)) = Suc (length (assignedOrders a))"
  by (simp_all add: commitOrder_def Let_def)

lemma driverId_assignOrder: "map driverId (assignOrder rm maxH as ord) = map driverId as"
  using assignOrder_cases [of rm maxH as ord]
  by (auto simp: map_update list_update_same_conv)

lemma driverId_foldl_assignOrder:
  "map driverId (foldl (assignOrder rm maxH) as os) = map driverId as"
  by (induction os arbitrary: as) (simp_all add: driverId_assignOrder)




lemma committedCount_assignOrder:
  "committedCount (assignOrder rm maxH as ord) \<le> Suc (committedCount as)"
  using assignOrder_cases [of rm maxH as ord]
proof
  assume "assignOrder rm maxH as ord = as"
  then show ?thesis by simp
next
  assume "\<exists>r i. rm (orderRouteId ord) = Some r \<and> i < length as \<and> hasCapacity r maxH (as ! i)
      \<and> assignOrder rm maxH as ord = as[i := commitOrder (as ! i) ord r]"
  then obtain r i where i: "i < length as"
    and eq: "assignOrder rm maxH as ord = as[i := commitOrder (as ! i) ord r]"
    by blast
  let ?f = "\<lambda>a. length (assignedOrders a)"
  have "sum_list ((map ?f as)[i := ?f (commitOrder (as ! i) ord r)])
          = sum_list (map ?f as) + ?f (commitOrder (as ! i) ord r) - map ?f as ! i"
    using i by (intro sum_list_update) simp
  with i show ?thesis
    unfolding eq committedCount_def by (simp add: map_update)
qed

lemma committedCount_foldl_assignOrder:
  "committedCount (foldl (assignOrder rm maxH) as os) \<le> committedCount as + length os"
proof (induction os arbitrary: as)
  case Nil
  then show ?case by simp
next
  case (Cons ord os)
  have "committedCount (foldl (assignOrder rm maxH) (assignOrder rm maxH as ord) os)
          \<le> committedCount (assignOrder rm maxH as ord) + length os"
    by (rule Cons.IH)
  with committedCount_assignOrder [of rm maxH as ord] show ?case by simp
qed

subsection \<open>The in-place sort and the whole run\<close>

lemma mset_insertOrder: "mset (insertOrder x ys) = add_mset x (mset ys)"
  by (induction ys) simp_all

lemma mset_sortOrders: "mset (sortOrders os) = mset os"
  unfolding sortOrders_def by (induction os) (simp_all add: mset_insertOrder)

lemma length_sortOrders [simp]: "length (sortOrders os) = length os"
  using mset_sortOrders [of os] by (metis size_mset)



lemma committedCount_init [simp]: "committedCount (map initAssignment ds) = 0"
  by (induction ds) (simp_all add: committedCount_def initAssignment_def)

lemma fst_optimizeOrderAssignment:
  "fst (optimizeOrderAssignment args start maxH)
     = foldl (assignOrder (routeMap args) maxH) (map initAssignment (drivers args))
         (sortOrders (orders args))"
  by (simp add: optimizeOrderAssignment_def Let_def)

lemma snd_optimizeOrderAssignment:
  "snd (optimizeOrderAssignment args start maxH) = args\<lparr>orders := sortOrders (orders args)\<rparr>"
  by (simp add: optimizeOrderAssignment_def Let_def)

lemma committedCount_planner:
  "committedCount (fst (optimizeOrderAssignment args start maxH)) \<le> length (orders args)"
  using committedCount_foldl_assignOrder
    [of "routeMap args" maxH "map initAssignment (drivers args)" "sortOrders (orders args)"]
  by (simp add: fst_optimizeOrderAssignment)

lemma length_committedOrders: "length (committedOrders plan) = committedCount plan"
  by (simp add: committedOrders_def committedCount_def length_concat comp_def)

lemma driverId_init: "driverId (initAssignment d) = driver_id d"
  by (simp add: initAssignment_def)

lemma sorted_insertOrder:
  "sorted_wrt (\<lambda>a b. valueRs b \<le> valueRs a) ys \<Longrightarrow>
   sorted_wrt (\<lambda>a b. valueRs b \<le> valueRs a) (insertOrder x ys)"
proof (induction ys)
  case Nil
  then show ?case by simp
next
  case (Cons y ys)
  have set_eq: "set (insertOrder x ys) = insert x (set ys)"
    using mset_insertOrder [of x ys] by (metis set_mset_add_mset_insert set_mset_mset)
  show ?case
  proof (cases "compareOrders x y \<le> 0")
    case True
    then have "valueRs y \<le> valueRs x"
      by (simp add: compareOrders_def split: if_splits)
    with True Cons.prems show ?thesis by auto
  next
    case False
    then have "valueRs x \<le> valueRs y"
      by (simp add: compareOrders_def split: if_splits)
    with False Cons show ?thesis by (auto simp: set_eq)
  qed
qed

lemma sorted_sortOrders: "sorted_wrt (\<lambda>a b. valueRs b \<le> valueRs a) (sortOrders os)"
  unfolding sortOrders_def by (induction os) (simp_all add: sorted_insertOrder)

subsection \<open>The sentinel of the scan\<close>









lemma length_plannerStateAt [simp]: "length (plannerStateAt args maxH k) = length (drivers args)"
  by (simp add: plannerStateAt_def)

subsection \<open>The driver query\<close>

lemma length_insertDriver [simp]: "length (insertDriver x ys) = Suc (length ys)"
  by (induction ys) simp_all

lemma length_findAvailableDrivers:
  "length (findAvailableDrivers ds limit)
     = (if limit = 0 then length (filter isAvailable ds)
        else min (length (filter isAvailable ds)) limit)"
proof -
  have "length (foldr insertDriver xs []) = length xs" for xs
    by (induction xs) simp_all
  then show ?thesis
    by (simp add: findAvailableDrivers_def Let_def)
qed

section \<open>The claims on the planner and on the entry point\<close>

text \<open>
  C4. On a plan the planner produced, the on-time and late counts add up to the total
  count, and the total count is at most the number of pending orders given to the planner.
\<close>

theorem C4_counts:
  "onTimeDeliveries (calculateKPIs (fst (optimizeOrderAssignment args start maxH)) rm)
     + lateDeliveries (calculateKPIs (fst (optimizeOrderAssignment args start maxH)) rm)
     = totalDeliveries (calculateKPIs (fst (optimizeOrderAssignment args start maxH)) rm)
   \<and> totalDeliveries (calculateKPIs (fst (optimizeOrderAssignment args start maxH)) rm)
       \<le> length (orders args)"
proof -
  let ?plan = "fst (optimizeOrderAssignment args start maxH)"
  have "length (filter (routePresent rm) (committedOrders ?plan)) \<le> committedCount ?plan"
    using length_filter_le [of "routePresent rm" "committedOrders ?plan"]
    by (simp add: length_committedOrders)
  also have "\<dots> \<le> length (orders args)"
    by (rule committedCount_planner)
  finally show ?thesis
    using kpiLoop_counts [of rm ?plan]
    by (simp add: calculateKPIs_def Let_def kpiLoop_total)
qed




text \<open>
  C7. With fewer available drivers than requested the run fails with the error that
  holds the available count, and returns neither assignments nor KPIs; with exactly as
  many it returns a result.
\<close>

theorem C7_insufficientDrivers:
  "(length (filter isAvailable (store_drivers db)) < numberOfDrivers inputs \<longrightarrow>
      runSimulation db inputs
        = Inl (InsufficientDrivers (length (filter isAvailable (store_drivers db)))
                 (numberOfDrivers inputs)))
   \<and> (length (filter isAvailable (store_drivers db)) = numberOfDrivers inputs \<longrightarrow>
      (\<exists>out. runSimulation db inputs = Inr out))"
  by (auto simp: runSimulation_def Let_def length_findAvailableDrivers)


theorem C7_insufficientDrivers_witness:
  "length (filter isAvailable (store_drivers ex_store)) < numberOfDrivers ex_inputsTooMany
   \<and> runSimulation ex_store ex_inputsTooMany = Inl (InsufficientDrivers 2 3)
   \<and> length (filter isAvailable (store_drivers ex_store)) = numberOfDrivers ex_inputs
   \<and> (\<exists>out. runSimulation ex_store ex_inputs = Inr out)"
proof -
  have h1: "length (filter isAvailable (store_drivers ex_store)) < numberOfDrivers ex_inputsTooMany"
    by code_simp
  have v1: "length (filter isAvailable (store_drivers ex_store)) = 2"
    "numberOfDrivers ex_inputsTooMany = 3"
    by code_simp+
  have h2: "length (filter isAvailable (store_drivers ex_store)) = numberOfDrivers ex_inputs"
    by code_simp
  from C7_insufficientDrivers [of ex_store ex_inputsTooMany]
    C7_insufficientDrivers [of ex_store ex_inputs] h1 v1 h2
  show ?thesis by simp
qed

text \<open>
  C8 (as amended). The planner returns one assignment per input driver, in the order of
  the driver list; the driver list and the route lookup are as before the call; the
  pending-orders array is sorted in place: after the call it holds the same orders,
  by descending value.
\<close>

theorem C8_frame:
  "map driverId (fst (optimizeOrderAssignment args start maxH)) = map driver_id (drivers args)
   \<and> length (fst (optimizeOrderAssignment args start maxH)) = length (drivers args)
   \<and> drivers (snd (optimizeOrderAssignment args start maxH)) = drivers args
   \<and> routeMap (snd (optimizeOrderAssignment args start maxH)) = routeMap args
   \<and> orders (snd (optimizeOrderAssignment args start maxH)) = sortOrders (orders args)
   \<and> mset (sortOrders (orders args)) = mset (orders args)
   \<and> sorted_wrt (\<lambda>a b. valueRs b \<le> valueRs a) (sortOrders (orders args))"
  by (simp add: fst_optimizeOrderAssignment snd_optimizeOrderAssignment
      driverId_foldl_assignOrder driverId_init mset_sortOrders sorted_sortOrders)

text \<open>
  C8 as the specification states it fails for the pending-orders list: given the orders
  of value 500 and 1500 in this order, the caller's array holds them in the other order
  after the call.
\<close>

theorem C8_counterexample:
  "orders ex_args = [ex_orderLow, ex_orderHigh]
   \<and> orders (snd (optimizeOrderAssignment ex_args ''09:00'' 8)) = [ex_orderHigh, ex_orderLow]
   \<and> orders (snd (optimizeOrderAssignment ex_args ''09:00'' 8)) \<noteq> orders ex_args"
  by code_simp



text \<open>
  C10. The shift start time has no effect: two calls that differ only in it return the
  same assignments, hence the same KPIs.
\<close>

theorem C10_startTime:
  "optimizeOrderAssignment args start1 maxH = optimizeOrderAssignment args start2 maxH
   \<and> calculateKPIs (fst (optimizeOrderAssignment args start1 maxH)) rm
       = calculateKPIs (fst (optimizeOrderAssignment args start2 maxH)) rm
   \<and> runSimulation db (inputs\<lparr>startTime := start1\<rparr>)
       = runSimulation db (inputs\<lparr>startTime := start2\<rparr>)"
  by (simp add: optimizeOrderAssignment_def runSimulation_def Let_def)


end
